theory Spec2Isabelle
  imports Main "HOL-Library.AList"
begin

section \<open>JavaScript values\<close>

text \<open>
  The values the hook handles: what \<^verbatim>\<open>JSON.parse\<close> can deliver, plus \<^verbatim>\<open>undefined\<close>,
  which the validator wrapper returns on failure and which a caller's validator may
  return. Numbers are the integers (the doubles that are whole and exactly
  representable); an object is the list of its own properties in property order.
\<close>

datatype jv =
    JUndefined
  | JNull
  | JBool bool
  | JNum int
  | JStr string
  | JArr "jv list"
  | JObj "(string \<times> jv) list"

datatype js_error =
    SyntaxError
  | TypeError
  | SecurityError
  | QuotaExceededError
  | Error string

text \<open>\<^verbatim>\<open>a ?? b\<close>: \<^verbatim>\<open>b\<close> when \<^verbatim>\<open>a\<close> is \<^verbatim>\<open>null\<close> or \<^verbatim>\<open>undefined\<close>, else \<^verbatim>\<open>a\<close>.\<close>

definition nullish_coalesce :: "jv \<Rightarrow> jv \<Rightarrow> jv" where
  "nullish_coalesce a b = (if a = JNull \<or> a = JUndefined then b else a)"

text \<open>Decimal numerals, for array indices as property names and for number texts.\<close>

fun show_nat :: "nat \<Rightarrow> string" where
  "show_nat n = (if n < 10 then [''0123456789'' ! n]
                 else show_nat (n div 10) @ [''0123456789'' ! (n mod 10)])"

declare show_nat.simps [simp del]

definition show_int :: "int \<Rightarrow> string" where
  "show_int i = (if i < 0 then CHR ''-'' # show_nat (nat (- i)) else show_nat (nat i))"

text \<open>
  The own enumerable properties that an object spread \<^verbatim>\<open>{ ...v }\<close> copies: those of an
  object, the indexed elements of an array, the indexed characters of a string, and
  nothing for \<^verbatim>\<open>null\<close>, \<^verbatim>\<open>undefined\<close>, booleans and numbers.
\<close>

definition own_props :: "jv \<Rightarrow> (string \<times> jv) list" where
  "own_props v = (case v of
       JObj ps \<Rightarrow> ps
     | JArr xs \<Rightarrow> zip (map show_nat [0..<length xs]) xs
     | JStr s \<Rightarrow> zip (map show_nat [0..<length s]) (map (\<lambda>c. JStr [c]) s)
     | _ \<Rightarrow> [])"

text \<open>
  Copying properties onto an object under construction: an existing name keeps its
  place and takes the new value, a new name goes last.
\<close>

definition copy_props :: "(string \<times> jv) list \<Rightarrow> (string \<times> jv) list \<Rightarrow> (string \<times> jv) list" where
  "copy_props target src = foldl (\<lambda>obj (k, v). AList.update k v obj) target src"

text \<open>\<^verbatim>\<open>{ ...a, ...b }\<close>\<close>

definition object_spread :: "jv \<Rightarrow> jv \<Rightarrow> jv" where
  "object_spread a b = JObj (copy_props (copy_props [] (own_props a)) (own_props b))"

section \<open>The platform\<close>

text \<open>
  \<^verbatim>\<open>window.localStorage\<close>: string keys and string values, a capacity the user agent
  sets, and a user agent that may refuse access altogether. Reading the
  \<^verbatim>\<open>localStorage\<close> property of a window that refuses access throws
  \<^verbatim>\<open>SecurityError\<close>; \<^verbatim>\<open>setItem\<close> throws \<^verbatim>\<open>QuotaExceededError\<close> when the new value
  does not fit.
\<close>

record storage =
  entries :: "(string \<times> string) list"
  quota :: nat
  blocked :: bool

definition usage :: "(string \<times> string) list \<Rightarrow> nat" where
  "usage es = sum_list (map (\<lambda>(k, v). length k + length v) es)"

definition localStorage_getter :: "storage \<Rightarrow> js_error + storage" where
  "localStorage_getter st = (if blocked st then Inl SecurityError else Inr st)"

definition getItem :: "storage \<Rightarrow> string \<Rightarrow> string option" where
  "getItem st k = map_of (entries st) k"

definition setItem :: "storage \<Rightarrow> string \<Rightarrow> string \<Rightarrow> js_error + storage" where
  "setItem st k v =
     (let es = AList.update k v (entries st)
      in if quota st < usage es then Inl QuotaExceededError
         else Inr (st\<lparr>entries := es\<rparr>))"

text \<open>
  What the hook takes from its host: whether \<^verbatim>\<open>window\<close> is defined, and the built-ins
  \<^verbatim>\<open>JSON.parse\<close> and \<^verbatim>\<open>JSON.stringify\<close>, either of which may throw.
\<close>

record platform =
  has_window :: bool
  JSON_parse :: "string \<Rightarrow> js_error + jv"
  JSON_stringify :: "jv \<Rightarrow> js_error + string"

section \<open>The hook\<close>

text \<open>
  One binding as a render sees it: the cell of \<^verbatim>\<open>useState\<close>, the storage area
  of the window, and the lines written with \<^verbatim>\<open>console.error\<close>.
\<close>

record world =
  state :: jv
  localStorage :: storage
  console :: "(string \<times> js_error) list"

text \<open>A call either returns or throws; either way it leaves a world behind.\<close>

datatype completion = Return world | Throw js_error world

fun world_of :: "completion \<Rightarrow> world" where
  "world_of (Return w) = w"
| "world_of (Throw e w) = w"

type_synonym validatorFn = "jv \<Rightarrow> js_error + jv"

datatype updateOrValue = Value jv | Updater "jv \<Rightarrow> js_error + jv"

text \<open>\<^verbatim>\<open>useState<T | null>(null)\<close> on the first render of a binding.\<close>

definition mount :: "storage \<Rightarrow> world" where
  "mount st = \<lparr>state = JNull, localStorage = st, console = []\<rparr>"

text \<open>Lines 13 to 24.\<close>

definition validator :: "validatorFn option \<Rightarrow> jv \<Rightarrow> world \<Rightarrow> jv \<times> world" where
  "validator validatorFn value w =
     (case validatorFn of
        Some f \<Rightarrow>
          (case f value of
             Inr validatedValue \<Rightarrow> (validatedValue, w)
           | Inl error \<Rightarrow>
               (JUndefined, w\<lparr>console := console w @ [(''Validation failed'', error)]\<rparr>))
      | None \<Rightarrow> (value, w))"

text \<open>Lines 34 to 37: the candidate, a literal or the updater applied to what is observed.\<close>

definition candidate :: "jv \<Rightarrow> updateOrValue \<Rightarrow> world \<Rightarrow> js_error + jv" where
  "candidate defaultValue u w =
     (case u of
        Updater f \<Rightarrow> f (nullish_coalesce (state w) defaultValue)
      | Value v \<Rightarrow> Inr v)"

text \<open>Lines 39 to 43.\<close>

definition finalValue :: "bool \<Rightarrow> world \<Rightarrow> jv \<Rightarrow> jv" where
  "finalValue merge w value = (if merge then object_spread (state w) value else value)"

text \<open>
  Lines 47 and 48: \<^verbatim>\<open>setState\<close>, then the property read \<^verbatim>\<open>window.localStorage\<close>,
  then the argument \<^verbatim>\<open>JSON.stringify(validatedValue)\<close>, then \<^verbatim>\<open>setItem\<close>. Nothing
  here is inside a \<^verbatim>\<open>try\<close>.
\<close>

definition commit :: "platform \<Rightarrow> string \<Rightarrow> jv \<Rightarrow> world \<Rightarrow> completion" where
  "commit env key validatedValue w =
     (let w' = w\<lparr>state := validatedValue\<rparr>
      in case localStorage_getter (localStorage w') of
           Inl e \<Rightarrow> Throw e w'
         | Inr st \<Rightarrow>
             (case JSON_stringify env validatedValue of
                Inl e \<Rightarrow> Throw e w'
              | Inr text \<Rightarrow>
                  (case setItem st key text of
                     Inl e \<Rightarrow> Throw e w'
                   | Inr st' \<Rightarrow> Return (w'\<lparr>localStorage := st'\<rparr>))))"

text \<open>
  Lines 26 to 50. \<^verbatim>\<open>merge\<close> is \<^verbatim>\<open>options?.merge\<close> read as a condition. The call is made
  by a render that observed \<^verbatim>\<open>w\<close>.
\<close>

definition setValue ::
  "platform \<Rightarrow> string \<Rightarrow> jv \<Rightarrow> validatorFn option \<Rightarrow> updateOrValue \<Rightarrow> bool \<Rightarrow> world \<Rightarrow> completion"
where
  "setValue env key defaultValue validatorFn u merge w =
     (if has_window env then
        (case candidate defaultValue u w of
           Inl e \<Rightarrow> Throw e w
         | Inr value \<Rightarrow>
             (case validator validatorFn (finalValue merge w value) w of
                (validatedValue, w1) \<Rightarrow>
                  if validatedValue = JUndefined then Return w1
                  else commit env key validatedValue w1))
      else Return w)"

text \<open>Lines 52 to 69, the body of the effect.\<close>

definition useEffect ::
  "platform \<Rightarrow> string \<Rightarrow> validatorFn option \<Rightarrow> world \<Rightarrow> completion"
where
  "useEffect env key validatorFn w =
     (if has_window env then
        (case localStorage_getter (localStorage w) of
           Inl e \<Rightarrow> Throw e w
         | Inr st \<Rightarrow>
             (case getItem st key of
                None \<Rightarrow> Return w
              | Some value \<Rightarrow>
                  if value = [] then Return w
                  else
                    (case JSON_parse env value of
                       Inl error \<Rightarrow>
                         Return (w\<lparr>console := console w @
                           [(''Failed to parse value from localStorage'', error)]\<rparr>)
                     | Inr parsed \<Rightarrow>
                         (case validator validatorFn parsed w of
                            (validatedValue, w1) \<Rightarrow>
                              if validatedValue = JUndefined then Return w1
                              else Return (w1\<lparr>state := validatedValue\<rparr>)))))
      else Return w)"

text \<open>Line 71: what the caller is handed as the current value.\<close>

definition observable :: "jv \<Rightarrow> world \<Rightarrow> jv" where
  "observable defaultValue w = nullish_coalesce (state w) defaultValue"

text \<open>
  The validator, if one is supplied, returns \<open>v\<close> itself when it is handed \<open>v\<close>.
\<close>

definition returns_unchanged :: "validatorFn option \<Rightarrow> jv \<Rightarrow> bool" where
  "returns_unchanged validatorFn v =
     (case validatorFn of None \<Rightarrow> True | Some f \<Rightarrow> f v = Inr v)"


subsection \<open>The life of a binding\<close>

text \<open>
  A binding is mounted, and then its effect runs and its setter is called, in any
  order and any number of times, each call made by a render that observed the world the
  call before left. A call that throws does not end the binding here: the world it
  leaves is the one the next call sees.
\<close>

datatype call = Effect | SetValue updateOrValue bool

fun step :: "platform \<Rightarrow> string \<Rightarrow> jv \<Rightarrow> validatorFn option \<Rightarrow> world \<Rightarrow> call \<Rightarrow> world" where
  "step env key defaultValue validatorFn w Effect =
     world_of (useEffect env key validatorFn w)"
| "step env key defaultValue validatorFn w (SetValue u merge) =
     world_of (setValue env key defaultValue validatorFn u merge w)"

definition run ::
  "platform \<Rightarrow> string \<Rightarrow> jv \<Rightarrow> validatorFn option \<Rightarrow> storage \<Rightarrow> call list \<Rightarrow> world"
where
  "run env key defaultValue validatorFn st calls =
     foldl (step env key defaultValue validatorFn) (mount st) calls"

section \<open>A browser\<close>

text \<open>
  A concrete platform for the scenarios: \<^verbatim>\<open>JSON.stringify\<close> and \<^verbatim>\<open>JSON.parse\<close> on the
  values above, for texts whose numbers are integers and whose strings carry no
  \<^verbatim>\<open>\u\<close> escapes. \<^verbatim>\<open>JSON.stringify\<close> leaves out a property whose value is \<^verbatim>\<open>undefined\<close>
  and writes \<^verbatim>\<open>null\<close> for such an array element; of \<^verbatim>\<open>undefined\<close> itself it returns
  \<^verbatim>\<open>undefined\<close>, which \<^verbatim>\<open>setItem\<close> would store as the text of that word.
\<close>

definition escape :: "char \<Rightarrow> string" where
  "escape c =
     (if c = CHR 0x22 then [CHR 0x5C, CHR 0x22]
      else if c = CHR 0x5C then [CHR 0x5C, CHR 0x5C]
      else if c = CHR 0x08 then [CHR 0x5C, CHR ''b'']
      else if c = CHR 0x0C then [CHR 0x5C, CHR ''f'']
      else if c = CHR 0x0A then [CHR 0x5C, CHR ''n'']
      else if c = CHR 0x0D then [CHR 0x5C, CHR ''r'']
      else if c = CHR 0x09 then [CHR 0x5C, CHR ''t'']
      else if (of_char c :: nat) < 32 then
        [CHR 0x5C, CHR ''u'', CHR ''0'', CHR ''0'',
         ''0123456789abcdef'' ! (of_char c div 16), ''0123456789abcdef'' ! (of_char c mod 16)]
      else [c])"

definition quote :: "string \<Rightarrow> string" where
  "quote s = CHR 0x22 # concat (map escape s) @ [CHR 0x22]"

fun join :: "string list \<Rightarrow> string" where
  "join [] = []"
| "join [x] = x"
| "join (x # y # ys) = x @ CHR '','' # join (y # ys)"

fun json_text :: "jv \<Rightarrow> string"
  and json_elements :: "jv list \<Rightarrow> string list"
  and json_members :: "(string \<times> jv) list \<Rightarrow> string list"
where
  "json_text JUndefined = ''undefined''"
| "json_text JNull = ''null''"
| "json_text (JBool b) = (if b then ''true'' else ''false'')"
| "json_text (JNum i) = show_int i"
| "json_text (JStr s) = quote s"
| "json_text (JArr xs) = CHR ''['' # join (json_elements xs) @ '']''"
| "json_text (JObj ps) = CHR ''{'' # join (json_members ps) @ ''}''"
| "json_elements [] = []"
| "json_elements (x # xs) =
     (if x = JUndefined then ''null'' else json_text x) # json_elements xs"
| "json_members [] = []"
| "json_members ((k, v) # ps) =
     (if v = JUndefined then json_members ps
      else (quote k @ CHR '':'' # json_text v) # json_members ps)"

datatype token =
    TLBrace | TRBrace | TLBracket | TRBracket | TColon | TComma
  | TString string | TNumber int | TTrue | TFalse | TNull

definition is_digit :: "char \<Rightarrow> bool" where
  "is_digit c = (48 \<le> (of_char c :: nat) \<and> (of_char c :: nat) \<le> 57)"

definition is_ws :: "char \<Rightarrow> bool" where
  "is_ws c = (c = CHR 0x20 \<or> c = CHR 0x09 \<or> c = CHR 0x0A \<or> c = CHR 0x0D)"

definition read_nat :: "string \<Rightarrow> nat" where
  "read_nat ds = foldl (\<lambda>n d. 10 * n + (of_char d - 48)) 0 ds"

definition unescape :: "char \<Rightarrow> char option" where
  "unescape e =
     (if e = CHR 0x22 then Some (CHR 0x22)
      else if e = CHR 0x5C then Some (CHR 0x5C)
      else if e = CHR ''/'' then Some (CHR ''/'')
      else if e = CHR ''b'' then Some (CHR 0x08)
      else if e = CHR ''f'' then Some (CHR 0x0C)
      else if e = CHR ''n'' then Some (CHR 0x0A)
      else if e = CHR ''r'' then Some (CHR 0x0D)
      else if e = CHR ''t'' then Some (CHR 0x09)
      else None)"

fun lex_string :: "string \<Rightarrow> string \<Rightarrow> (string \<times> string) option" where
  "lex_string acc [] = None"
| "lex_string acc [c] = (if c = CHR 0x22 then Some (rev acc, []) else None)"
| "lex_string acc (c # e # cs) =
     (if c = CHR 0x22 then Some (rev acc, e # cs)
      else if c = CHR 0x5C then
        (case unescape e of None \<Rightarrow> None | Some x \<Rightarrow> lex_string (x # acc) cs)
      else if (of_char c :: nat) < 32 then None
      else lex_string (c # acc) (e # cs))"

definition lex_number :: "string \<Rightarrow> (int \<times> string) option" where
  "lex_number cs =
     (let neg = (cs \<noteq> [] \<and> hd cs = CHR ''-'');
          body = (if neg then tl cs else cs);
          ds = takeWhile is_digit body;
          rest = dropWhile is_digit body
      in if ds = [] \<or> (hd ds = CHR ''0'' \<and> length ds > 1) then None
         else if rest \<noteq> [] \<and> hd rest \<in> set ''.eE'' then None
         else Some (if neg then - int (read_nat ds) else int (read_nat ds), rest))"

text \<open>The fuel of the scanner and of the parser is the length of what they read.\<close>

fun lex :: "nat \<Rightarrow> string \<Rightarrow> token list option" where
  "lex 0 cs = None"
| "lex (Suc n) [] = Some []"
| "lex (Suc n) (c # cs) =
     (if is_ws c then lex n cs
      else if c = CHR ''{'' then map_option ((#) TLBrace) (lex n cs)
      else if c = CHR ''}'' then map_option ((#) TRBrace) (lex n cs)
      else if c = CHR ''['' then map_option ((#) TLBracket) (lex n cs)
      else if c = CHR '']'' then map_option ((#) TRBracket) (lex n cs)
      else if c = CHR '':'' then map_option ((#) TColon) (lex n cs)
      else if c = CHR '','' then map_option ((#) TComma) (lex n cs)
      else if c = CHR 0x22 then
        (case lex_string [] cs of
           None \<Rightarrow> None
         | Some (s, rest) \<Rightarrow> map_option ((#) (TString s)) (lex n rest))
      else if take 4 (c # cs) = ''true'' then map_option ((#) TTrue) (lex n (drop 3 cs))
      else if take 5 (c # cs) = ''false'' then map_option ((#) TFalse) (lex n (drop 4 cs))
      else if take 4 (c # cs) = ''null'' then map_option ((#) TNull) (lex n (drop 3 cs))
      else
        (case lex_number (c # cs) of
           None \<Rightarrow> None
         | Some (i, rest) \<Rightarrow> map_option ((#) (TNumber i)) (lex n rest)))"

fun parse_value :: "nat \<Rightarrow> token list \<Rightarrow> (jv \<times> token list) option"
  and parse_elements :: "nat \<Rightarrow> jv list \<Rightarrow> token list \<Rightarrow> (jv \<times> token list) option"
  and parse_members :: "nat \<Rightarrow> (string \<times> jv) list \<Rightarrow> token list \<Rightarrow> (jv \<times> token list) option"
where
  "parse_value 0 ts = None"
| "parse_value (Suc n) ts =
     (case ts of
        TString s # r \<Rightarrow> Some (JStr s, r)
      | TNumber i # r \<Rightarrow> Some (JNum i, r)
      | TTrue # r \<Rightarrow> Some (JBool True, r)
      | TFalse # r \<Rightarrow> Some (JBool False, r)
      | TNull # r \<Rightarrow> Some (JNull, r)
      | TLBracket # r \<Rightarrow>
          (case r of TRBracket # r' \<Rightarrow> Some (JArr [], r') | _ \<Rightarrow> parse_elements n [] r)
      | TLBrace # r \<Rightarrow>
          (case r of TRBrace # r' \<Rightarrow> Some (JObj [], r') | _ \<Rightarrow> parse_members n [] r)
      | _ \<Rightarrow> None)"
| "parse_elements 0 acc ts = None"
| "parse_elements (Suc n) acc ts =
     (case parse_value n ts of
        None \<Rightarrow> None
      | Some (v, r) \<Rightarrow>
          (case r of
             TComma # r' \<Rightarrow> parse_elements n (acc @ [v]) r'
           | TRBracket # r' \<Rightarrow> Some (JArr (acc @ [v]), r')
           | _ \<Rightarrow> None))"
| "parse_members 0 acc ts = None"
| "parse_members (Suc n) acc ts =
     (case ts of
        TString k # TColon # r \<Rightarrow>
          (case parse_value n r of
             None \<Rightarrow> None
           | Some (v, r') \<Rightarrow>
               (case r' of
                  TComma # r'' \<Rightarrow> parse_members n (AList.update k v acc) r''
                | TRBrace # r'' \<Rightarrow> Some (JObj (AList.update k v acc), r'')
                | _ \<Rightarrow> None))
      | _ \<Rightarrow> None)"

definition json_parse :: "string \<Rightarrow> js_error + jv" where
  "json_parse text =
     (case lex (Suc (length text)) text of
        None \<Rightarrow> Inl SyntaxError
      | Some ts \<Rightarrow>
          (case parse_value (Suc (length ts)) ts of
             Some (v, []) \<Rightarrow> Inr v
           | _ \<Rightarrow> Inl SyntaxError))"

definition browser :: platform where
  "browser = \<lparr>has_window = True, JSON_parse = json_parse,
              JSON_stringify = (\<lambda>v. Inr (json_text v))\<rparr>"

definition empty_storage :: storage where
  "empty_storage = \<lparr>entries = [], quota = 5242880, blocked = False\<rparr>"

subsection \<open>Callers\<close>

text \<open>Reading a property of a value that is known to be an object.\<close>

definition read_prop :: "jv \<Rightarrow> string \<Rightarrow> jv" where
  "read_prop v k = (case map_of (own_props v) k of None \<Rightarrow> JUndefined | Some x \<Rightarrow> x)"

text \<open>
  \<^verbatim>\<open>prev => ({count: prev.count + 1})\<close> where \<^verbatim>\<open>prev.count\<close> is a number. Reading a
  property of \<^verbatim>\<open>null\<close> or \<^verbatim>\<open>undefined\<close> throws. On a \<^verbatim>\<open>count\<close> that is not a number
  JavaScript's \<^verbatim>\<open>+\<close> converts its operands to a string or to \<^verbatim>\<open>NaN\<close>, values outside
  the integers here: the updater is defined on numbers and answers \<^verbatim>\<open>Error\<close> elsewhere.
\<close>

definition increment :: "jv \<Rightarrow> js_error + jv" where
  "increment prev =
     (if prev = JNull \<or> prev = JUndefined then Inl TypeError
      else case read_prop prev ''count'' of
             JNum n \<Rightarrow> Inr (JObj [(''count'', JNum (n + 1))])
           | _ \<Rightarrow> Inl (Error ''count is not a number''))"

text \<open>
  A validator in the manner of the one the README shows: it throws unless \<^verbatim>\<open>fontSize\<close>
  is a number from 12 to 24, and returns what it was given.
\<close>

definition fontSize_validator :: validatorFn where
  "fontSize_validator v =
     (if v = JNull \<or> v = JUndefined then Inl TypeError
      else case read_prop v ''fontSize'' of
             JNum n \<Rightarrow> if n < 12 \<or> 24 < n then Inl (Error ''Invalid font size'') else Inr v
           | _ \<Rightarrow> Inl (Error ''Invalid font size''))"

text \<open>A validator that answers \<^verbatim>\<open>undefined\<close> where the one above throws.\<close>

definition lenient_validator :: validatorFn where
  "lenient_validator v =
     (case fontSize_validator v of Inl e \<Rightarrow> Inr JUndefined | Inr x \<Rightarrow> Inr x)"

text \<open>
  A validator that takes any number as \<^verbatim>\<open>fontSize\<close> and returns the preferences with
  the size brought into the range from 12 to 24.
\<close>

definition clamp_validator :: validatorFn where
  "clamp_validator v =
     (if v = JNull \<or> v = JUndefined then Inl TypeError
      else case read_prop v ''fontSize'' of
             JNum n \<Rightarrow>
               Inr (JObj [(''theme'', read_prop v ''theme''),
                          (''fontSize'', JNum (max 12 (min 24 n)))])
           | _ \<Rightarrow> Inl (Error ''Invalid font size''))"


subsection \<open>Values and storage areas of the scenarios\<close>

definition counter :: "int \<Rightarrow> jv" where
  "counter n = JObj [(''count'', JNum n)]"

definition preferences :: "int \<Rightarrow> jv" where
  "preferences n = JObj [(''theme'', JStr ''light''), (''fontSize'', JNum n)]"

text \<open>The default and the partial update of the README's section on partial updates.\<close>

definition user_data :: jv where
  "user_data = JObj [(''name'', JStr []), (''settings'', JObj [(''theme'', JStr ''light'')])]"

definition dark_settings :: jv where
  "dark_settings = JObj [(''settings'', JObj [(''theme'', JStr ''dark'')])]"



text \<open>An area whose entry is not JSON, and one whose entry the validator will not take.\<close>

definition broken_storage :: storage where
  "broken_storage = empty_storage\<lparr>entries := [(''my-counter'', ''{count:1}'')]\<rparr>"

definition oversized_storage :: storage where
  \<open>oversized_storage =
     empty_storage\<lparr>entries := [(''user-preferences'', ''{"theme":"light","fontSize":40}'')]\<rparr>\<close>

text \<open>The world after a font size of 20 has been saved from a fresh binding.\<close>

definition saved_preferences :: world where
  \<open>saved_preferences =
     \<lparr>state = preferences 20,
      localStorage =
        empty_storage\<lparr>entries := [(''user-preferences'', ''{"theme":"light","fontSize":20}'')]\<rparr>,
      console = []\<rparr>\<close>

text \<open>The world after a font size of 40 has gone through the clamping validator.\<close>

definition clamped_preferences :: world where
  \<open>clamped_preferences =
     \<lparr>state = preferences 24,
      localStorage =
        empty_storage\<lparr>entries := [(''user-preferences'', ''{"theme":"light","fontSize":24}'')]\<rparr>,
      console = []\<rparr>\<close>

section \<open>Facts about the parts\<close>

lemmas setValue_defs =
  setValue_def candidate_def nullish_coalesce_def finalValue_def validator_def commit_def
  localStorage_getter_def setItem_def usage_def

lemmas useEffect_defs =
  useEffect_def validator_def localStorage_getter_def getItem_def

lemma validator_returns_unchanged:
  assumes "returns_unchanged validatorFn v"
  shows "validator validatorFn v w = (v, w)"
  using assms by (simp add: returns_unchanged_def validator_def split: option.splits)


lemma state_commit: "state (world_of (commit env key v w)) = v"
  by (simp add: commit_def Let_def split: sum.splits)

lemma commit_Return:
  assumes "commit env key v w = Return w1"
  shows "\<exists>text st'. \<not> blocked (localStorage w) \<and> JSON_stringify env v = Inr text
           \<and> setItem (localStorage w) key text = Inr st'
           \<and> w1 = w\<lparr>state := v, localStorage := st'\<rparr>"
  using assms
  by (auto simp add: commit_def localStorage_getter_def Let_def split: sum.splits if_splits)


lemma setItem_Inr:
  assumes "setItem st k v = Inr st'"
  shows "getItem st' k = Some v \<and> blocked st' = blocked st"
  using assms
  by (auto simp add: setItem_def getItem_def Let_def AList.update_conv' split: if_splits)



subsection \<open>The shallow merge over a state that holds an object\<close>

lemma map_of_copy_props:
  "map_of (copy_props target src) = map_of target ++ map_of (rev src)"
proof (induction src arbitrary: target)
  case Nil
  then show ?case by (simp add: copy_props_def)
next
  case (Cons p src)
  obtain k v where p: "p = (k, v)" by (cases p)
  have "copy_props target (p # src) = copy_props (AList.update k v target) src"
    by (simp add: copy_props_def p)
  then show ?case
    using Cons [of "AList.update k v target"]
    by (simp add: p AList.update_conv' fun_eq_iff map_add_def split: option.splits)
qed

lemma map_of_rev_distinct:
  "distinct (map fst xs) \<Longrightarrow> map_of (rev xs) = map_of xs"
proof (induction xs)
  case Nil
  then show ?case by simp
next
  case (Cons p xs)
  then have "map_of xs (fst p) = None"
    by (simp add: map_of_eq_None_iff)
  with Cons show ?case
    by (cases p) (auto simp add: fun_eq_iff map_add_def split: option.splits)
qed

text \<open>
  Where the state holds an object, the merged value has the candidate's properties
  and, for every other name, the state's: one level deep, values taken whole.
\<close>

lemma merge_over_object:
  assumes "state w = JObj sp" and "distinct (map fst sp)" and "distinct (map fst vp)"
  shows "\<exists>ps. finalValue True w (JObj vp) = JObj ps \<and> map_of ps = map_of sp ++ map_of vp"
  using assms
  by (simp add: finalValue_def object_spread_def own_props_def map_of_copy_props
        map_of_rev_distinct)

text \<open>
  The update of \<^verbatim>\<open>{b:{y:2}}\<close> with merge on a binding that has adopted nothing, with \<^verbatim>\<open>{a:1, b:{x:1}}\<close> as its
  default and no validator: the merge spreads the state, which is \<^verbatim>\<open>null\<close>, and leaves
  \<^verbatim>\<open>{b:{y:2}}\<close>: the \<^verbatim>\<open>a\<close> the caller was observing is gone.
\<close>

lemma merge_scenario_before_adoption:
  "observable (JObj [(''a'', JNum 1), (''b'', JObj [(''x'', JNum 1)])]) (mount empty_storage)
     = JObj [(''a'', JNum 1), (''b'', JObj [(''x'', JNum 1)])]
   \<and> state (world_of (setValue browser ''k''
        (JObj [(''a'', JNum 1), (''b'', JObj [(''x'', JNum 1)])]) None
        (Value (JObj [(''b'', JObj [(''y'', JNum 2)])])) True (mount empty_storage)))
     = JObj [(''b'', JObj [(''y'', JNum 2)])]"
proof -
  have "finalValue True (mount empty_storage) (JObj [(''b'', JObj [(''y'', JNum 2)])])
          = JObj [(''b'', JObj [(''y'', JNum 2)])]"
    by (simp add: finalValue_def object_spread_def own_props_def copy_props_def mount_def)
  then have "setValue browser ''k''
        (JObj [(''a'', JNum 1), (''b'', JObj [(''x'', JNum 1)])]) None
        (Value (JObj [(''b'', JObj [(''y'', JNum 2)])])) True (mount empty_storage)
      = commit browser ''k'' (JObj [(''b'', JObj [(''y'', JNum 2)])]) (mount empty_storage)"
    by (simp add: setValue_def candidate_def validator_def browser_def)
  then show ?thesis
    by (simp add: state_commit observable_def nullish_coalesce_def mount_def)
qed

subsection \<open>What the validator has returned\<close>

lemma validated_useEffect:
  assumes "state w = JNull \<or> (\<exists>x. f x = Inr (state w))"
  shows "state (world_of (useEffect env key (Some f) w)) = JNull
       \<or> (\<exists>x. f x = Inr (state (world_of (useEffect env key (Some f) w))))"
  using assms
  by (auto simp add: useEffect_def validator_def localStorage_getter_def
           split: sum.splits option.splits)

lemma validated_setValue:
  assumes "state w = JNull \<or> (\<exists>x. f x = Inr (state w))"
  shows "state (world_of (setValue env key d (Some f) u merge w)) = JNull
       \<or> (\<exists>x. f x = Inr (state (world_of (setValue env key d (Some f) u merge w))))"
  using assms
  by (auto simp add: setValue_def validator_def state_commit split: sum.splits)

lemma validated_run:
  "state (run env key d (Some f) st calls) = JNull
   \<or> (\<exists>x. f x = Inr (state (run env key d (Some f) st calls)))"
proof (induction calls rule: rev_induct)
  case Nil
  then show ?case by (simp add: run_def mount_def)
next
  case (snoc c calls)
  then show ?case
    using validated_useEffect validated_setValue
    by (cases c) (simp_all add: run_def)
qed

subsection \<open>Texts of the scenarios\<close>

lemma text_counter:
  \<open>json_text (JObj [(''count'', JNum 1)]) = ''{"count":1}''\<close>
  \<open>json_text (JObj [(''count'', JNum 2)]) = ''{"count":2}''\<close>
  \<open>json_text (JObj [(''count'', JNum 3)]) = ''{"count":3}''\<close>
  by code_simp+

lemma text_preferences:
  \<open>json_text (JObj [(''theme'', JStr ''light''), (''fontSize'', JNum 20)])
     = ''{"theme":"light","fontSize":20}''\<close>
  by code_simp

lemma parse_preferences:
  \<open>json_parse ''{"theme":"light","fontSize":20}''
     = Inr (JObj [(''theme'', JStr ''light''), (''fontSize'', JNum 20)])\<close>
  \<open>json_parse ''{"theme":"light","fontSize":40}''
     = Inr (JObj [(''theme'', JStr ''light''), (''fontSize'', JNum 40)])\<close>
  by code_simp+

lemma text_dark_settings:
  \<open>json_text (JObj [(''settings'', JObj [(''theme'', JStr ''dark'')])])
     = ''{"settings":{"theme":"dark"}}''\<close>
  by code_simp

lemma text_clamped:
  \<open>json_text (JObj [(''theme'', JStr ''light''), (''fontSize'', JNum 24)])
     = ''{"theme":"light","fontSize":24}''\<close>
  \<open>json_text (JObj [(''theme'', JStr ''light''), (''fontSize'', JNum 40)])
     = ''{"theme":"light","fontSize":40}''\<close>
  \<open>json_text (JObj [(''a'', JNum 1)]) = ''{"a":1}''\<close>
  by code_simp+

lemma parse_clamped:
  \<open>json_parse ''{"theme":"light","fontSize":24}''
     = Inr (JObj [(''theme'', JStr ''light''), (''fontSize'', JNum 24)])\<close>
  by code_simp

lemma parse_broken: "json_parse ''{count:1}'' = Inl SyntaxError"
  by code_simp

section \<open>The claims\<close>

text \<open>
  C1. Whatever the state, the candidate and the validator: when the validator raises
  on the value it is handed (the candidate, merged or not), the update returns
  normally, and the state, the value the caller observes and the storage area are as
  they were before the call.
\<close>

theorem validator_raise_discards_update:
  assumes "candidate defaultValue u w = Inr value"
      and "f (finalValue merge w value) = Inl e"
  shows "\<exists>w'. setValue env key defaultValue (Some f) u merge w = Return w'
              \<and> state w' = state w
              \<and> observable defaultValue w' = observable defaultValue w
              \<and> localStorage w' = localStorage w"
  using assms by (simp add: setValue_def validator_def observable_def)

theorem validator_raise_discards_update_witness:
  "candidate (preferences 16) (Value (preferences 40)) (mount empty_storage)
     = Inr (preferences 40)
   \<and> fontSize_validator (finalValue False (mount empty_storage) (preferences 40))
     = Inl (Error ''Invalid font size'')
   \<and> (\<exists>w'. setValue browser ''user-preferences'' (preferences 16) (Some fontSize_validator)
               (Value (preferences 40)) False (mount empty_storage) = Return w'
            \<and> state w' = state (mount empty_storage)
            \<and> observable (preferences 16) w' = observable (preferences 16) (mount empty_storage)
            \<and> localStorage w' = localStorage (mount empty_storage))"
proof -
  have c: "candidate (preferences 16) (Value (preferences 40)) (mount empty_storage)
             = Inr (preferences 40)"
    by (simp add: candidate_def)
  have v: "fontSize_validator (finalValue False (mount empty_storage) (preferences 40))
             = Inl (Error ''Invalid font size'')"
    by (simp add: finalValue_def fontSize_validator_def preferences_def read_prop_def
          own_props_def)
  from validator_raise_discards_update
         [where f = fontSize_validator and env = browser and key = "''user-preferences''",
          OF c v] c v
  show ?thesis by blast
qed

text \<open>
  C2, as the code has it. A record \<open>V\<close> that is JSON-serializable (the platform's
  \<^verbatim>\<open>JSON.stringify\<close> gives a text, not empty, that its \<^verbatim>\<open>JSON.parse\<close> reads back as
  \<open>V\<close>) and that the validator returns unchanged (or no validator is supplied): when an
  update has written it, the entry under the key is that text, and a fresh binding on
  the same key, whatever its default, returns from its initialization with \<open>V\<close> as the
  value the caller observes.
\<close>

theorem written_value_round_trips:
  assumes win: "has_window env"
      and cand: "candidate defaultValue u w = Inr value"
      and fin: "finalValue merge w value = JObj ps"
      and same: "returns_unchanged validatorFn (JObj ps)"
      and ser: "JSON_stringify env (JObj ps) = Inr text" "text \<noteq> []"
               "JSON_parse env text = Inr (JObj ps)"
      and upd: "setValue env key defaultValue validatorFn u merge w = Return w1"
  shows "getItem (localStorage w1) key = Some text
       \<and> (\<exists>w2. useEffect env key validatorFn (mount (localStorage w1)) = Return w2
                \<and> observable defaultValue' w2 = JObj ps)"
proof -
  from win cand fin upd have "commit env key (JObj ps) w = Return w1"
    by (simp add: setValue_def validator_returns_unchanged [OF same])
  from commit_Return [OF this] ser(1) obtain st'
    where nb: "\<not> blocked (localStorage w)"
      and set: "setItem (localStorage w) key text = Inr st'"
      and w1: "w1 = w\<lparr>state := JObj ps, localStorage := st'\<rparr>"
    by auto
  from setItem_Inr [OF set] nb w1
  have get: "getItem (localStorage w1) key = Some text" and nb1: "\<not> blocked (localStorage w1)"
    by simp_all
  let ?m = "mount (localStorage w1)"
  have "useEffect env key validatorFn ?m = Return (?m\<lparr>state := JObj ps\<rparr>)"
    using win get nb1 ser(2,3)
    by (simp add: useEffect_def localStorage_getter_def mount_def
          validator_returns_unchanged [OF same])
  moreover have "observable defaultValue' (?m\<lparr>state := JObj ps\<rparr>) = JObj ps"
    by (simp add: observable_def nullish_coalesce_def)
  ultimately show ?thesis using get by simp
qed

text \<open>
  C2, as it is stated, fails. The hook stores what the validator returns (lines 45 to
  48), not what it was given. The preferences with font size 40 are JSON-serializable
  and the clamping validator accepts them, returning the preferences with font size 24:
  the update writes the text of those, and a fresh binding on the same key observes
  font size 24, not 40.
\<close>

theorem accepted_value_is_stored_as_validated:
  \<open>JSON_stringify browser (preferences 40) = Inr ''{"theme":"light","fontSize":40}''
   \<and> JSON_parse browser ''{"theme":"light","fontSize":40}'' = Inr (preferences 40)
   \<and> clamp_validator (preferences 40) = Inr (preferences 24)
   \<and> setValue browser ''user-preferences'' (preferences 16) (Some clamp_validator)
        (Value (preferences 40)) False (mount empty_storage) = Return clamped_preferences
   \<and> useEffect browser ''user-preferences'' (Some clamp_validator)
        (mount (localStorage clamped_preferences)) = Return clamped_preferences
   \<and> observable (preferences 16) clamped_preferences = preferences 24
   \<and> preferences 24 \<noteq> preferences 40\<close>
proof -
  have s: \<open>JSON_stringify browser (preferences 40) = Inr ''{"theme":"light","fontSize":40}''\<close>
    by (simp add: browser_def preferences_def text_clamped del: json_text.simps)
  have p: \<open>JSON_parse browser ''{"theme":"light","fontSize":40}'' = Inr (preferences 40)\<close>
    by (simp add: browser_def preferences_def parse_preferences)
  have c: "clamp_validator (preferences 40) = Inr (preferences 24)"
    by (simp add: clamp_validator_def preferences_def read_prop_def own_props_def)
  have u: "setValue browser ''user-preferences'' (preferences 16) (Some clamp_validator)
        (Value (preferences 40)) False (mount empty_storage) = Return clamped_preferences"
    by (simp add: setValue_defs browser_def mount_def empty_storage_def preferences_def
          clamp_validator_def read_prop_def own_props_def text_clamped
          clamped_preferences_def del: json_text.simps)
  have e: "useEffect browser ''user-preferences'' (Some clamp_validator)
        (mount (localStorage clamped_preferences)) = Return clamped_preferences"
    by (simp add: useEffect_defs browser_def mount_def empty_storage_def preferences_def
          clamp_validator_def read_prop_def own_props_def parse_clamped
          clamped_preferences_def)
  have obs: "observable (preferences 16) clamped_preferences = preferences 24"
    by (simp add: observable_def nullish_coalesce_def clamped_preferences_def preferences_def)
  have n: "preferences 24 \<noteq> preferences 40"
    by (simp add: preferences_def)
  from s p c u e obs n show ?thesis by blast
qed

theorem written_value_round_trips_witness:
  \<open>returns_unchanged (Some fontSize_validator) (preferences 20)
   \<and> JSON_stringify browser (preferences 20) = Inr ''{"theme":"light","fontSize":20}''
   \<and> JSON_parse browser ''{"theme":"light","fontSize":20}'' = Inr (preferences 20)
   \<and> setValue browser ''user-preferences'' (preferences 16) (Some fontSize_validator)
        (Value (preferences 20)) False (mount empty_storage) = Return saved_preferences
   \<and> getItem (localStorage saved_preferences) ''user-preferences''
        = Some ''{"theme":"light","fontSize":20}''
   \<and> (\<exists>w2. useEffect browser ''user-preferences'' (Some fontSize_validator)
               (mount (localStorage saved_preferences)) = Return w2
            \<and> observable (preferences 16) w2 = preferences 20)\<close>
proof -
  let ?V = "[(''theme'', JStr ''light''), (''fontSize'', JNum 20)]"
  have V: "preferences 20 = JObj ?V"
    by (simp add: preferences_def)
  have win: "has_window browser"
    by (simp add: browser_def)
  have cand: "candidate (preferences 16) (Value (preferences 20)) (mount empty_storage)
                = Inr (preferences 20)"
    by (simp add: candidate_def)
  have fin: "finalValue False (mount empty_storage) (preferences 20) = JObj ?V"
    by (simp add: finalValue_def V)
  have same: "returns_unchanged (Some fontSize_validator) (JObj ?V)"
    by (simp add: returns_unchanged_def fontSize_validator_def read_prop_def own_props_def)
  have ser: \<open>JSON_stringify browser (JObj ?V) = Inr ''{"theme":"light","fontSize":20}''\<close>
    by (simp add: browser_def text_preferences del: json_text.simps)
  have ne: \<open>''{"theme":"light","fontSize":20}'' \<noteq> []\<close>
    by simp
  have par: \<open>JSON_parse browser ''{"theme":"light","fontSize":20}'' = Inr (JObj ?V)\<close>
    by (simp add: browser_def parse_preferences)
  have upd: "setValue browser ''user-preferences'' (preferences 16) (Some fontSize_validator)
        (Value (preferences 20)) False (mount empty_storage) = Return saved_preferences"
    by (simp add: setValue_defs browser_def mount_def empty_storage_def preferences_def
          fontSize_validator_def read_prop_def own_props_def text_preferences
          saved_preferences_def del: json_text.simps)
  from written_value_round_trips [OF win cand fin same ser ne par upd, of "preferences 16"]
  show ?thesis
    using same ser par upd by (simp add: V)
qed




text \<open>
  C4 fails on a binding that has adopted nothing. The README's partial update, made
  on a fresh binding whose storage area is empty: the caller observes the default, with
  its \<^verbatim>\<open>name\<close>; the merge spreads the state, which is \<^verbatim>\<open>null\<close>, not the value the caller
  observes, so the new state and the entry hold the candidate alone and \<^verbatim>\<open>name\<close> is
  gone.
\<close>

theorem merge_before_adoption_drops_default:
  \<open>useEffect browser ''user-data'' None (mount empty_storage) = Return (mount empty_storage)
   \<and> observable user_data (mount empty_storage) = user_data
   \<and> read_prop user_data ''name'' = JStr []
   \<and> setValue browser ''user-data'' user_data None (Value dark_settings) True
        (mount empty_storage)
     = Return \<lparr>state = dark_settings,
               localStorage =
                 empty_storage\<lparr>entries := [(''user-data'', ''{"settings":{"theme":"dark"}}'')]\<rparr>,
               console = []\<rparr>
   \<and> read_prop dark_settings ''name'' = JUndefined\<close>
proof -
  have "useEffect browser ''user-data'' None (mount empty_storage) = Return (mount empty_storage)"
    by (simp add: useEffect_defs browser_def mount_def empty_storage_def)
  moreover have "observable user_data (mount empty_storage) = user_data"
    by (simp add: observable_def nullish_coalesce_def mount_def)
  moreover have "read_prop user_data ''name'' = JStr []"
    by (simp add: read_prop_def own_props_def user_data_def)
  moreover have
    \<open>setValue browser ''user-data'' user_data None (Value dark_settings) True
        (mount empty_storage)
     = Return \<lparr>state = dark_settings,
               localStorage =
                 empty_storage\<lparr>entries := [(''user-data'', ''{"settings":{"theme":"dark"}}'')]\<rparr>,
               console = []\<rparr>\<close>
    by (simp add: setValue_defs object_spread_def own_props_def copy_props_def browser_def
          mount_def empty_storage_def dark_settings_def text_dark_settings
          del: json_text.simps)
  moreover have "read_prop dark_settings ''name'' = JUndefined"
    by (simp add: read_prop_def own_props_def dark_settings_def)
  ultimately show ?thesis by blast
qed




text \<open>
  C6. Whatever the key and the default: when the storage area holds no entry under the
  key, the value the caller observes after the initialization of a binding is the
  default.
\<close>

theorem absent_entry_exposes_default:
  assumes "getItem st key = None"
  shows "observable defaultValue (world_of (useEffect env key validatorFn (mount st)))
           = defaultValue"
  using assms
  by (simp add: useEffect_def localStorage_getter_def mount_def observable_def
        nullish_coalesce_def)

theorem absent_entry_exposes_default_witness:
  "getItem empty_storage ''my-counter'' = None
   \<and> observable (counter 0)
        (world_of (useEffect browser ''my-counter'' None (mount empty_storage)))
        = counter 0"
proof -
  have a: "getItem empty_storage ''my-counter'' = None"
    by (simp add: getItem_def empty_storage_def)
  from absent_entry_exposes_default [OF a] a show ?thesis by blast
qed

text \<open>
  C7. A stored text that \<^verbatim>\<open>JSON.parse\<close> rejects: the initialization of a binding that
  reads it returns normally, the caller goes on observing the default, and the storage
  area is as it was.
\<close>

theorem unparseable_entry_exposes_default:
  assumes "\<not> blocked st"
      and "getItem st key = Some text"
      and "JSON_parse env text = Inl e"
  shows "\<exists>w'. useEffect env key validatorFn (mount st) = Return w'
              \<and> observable defaultValue w' = defaultValue
              \<and> localStorage w' = st"
  using assms
  by (simp add: useEffect_def localStorage_getter_def mount_def observable_def
        nullish_coalesce_def)

theorem unparseable_entry_exposes_default_witness:
  "\<not> blocked broken_storage
   \<and> getItem broken_storage ''my-counter'' = Some ''{count:1}''
   \<and> JSON_parse browser ''{count:1}'' = Inl SyntaxError
   \<and> (\<exists>w'. useEffect browser ''my-counter'' None (mount broken_storage) = Return w'
            \<and> observable (counter 0) w' = counter 0
            \<and> localStorage w' = broken_storage)"
proof -
  have b: "\<not> blocked broken_storage"
    by (simp add: broken_storage_def empty_storage_def)
  have g: "getItem broken_storage ''my-counter'' = Some ''{count:1}''"
    by (simp add: getItem_def broken_storage_def)
  have p: "JSON_parse browser ''{count:1}'' = Inl SyntaxError"
    by (simp add: browser_def parse_broken)
  from unparseable_entry_exposes_default [OF b g p] b g p show ?thesis by blast
qed

text \<open>
  C8. Key \<^verbatim>\<open>"counter"\<close>, default \<^verbatim>\<open>{count:0}\<close>, no validator, an empty storage area. After
  the binding's initialization, the update with \<^verbatim>\<open>prev => ({count: prev.count+1})\<close> is
  called three times, each call seeing the state the call before left. The third call
  returns with \<^verbatim>\<open>{count:3}\<close> as the state and as the value the caller observes, and with
  the text \<^verbatim>\<open>{"count":3}\<close> as the entry.
\<close>

theorem counter_three_increments:
  \<open>setValue browser ''counter'' (counter 0) None (Updater increment) False
     (world_of (setValue browser ''counter'' (counter 0) None (Updater increment) False
        (world_of (setValue browser ''counter'' (counter 0) None (Updater increment) False
           (world_of (useEffect browser ''counter'' None (mount empty_storage)))))))
     = Return \<lparr>state = JObj [(''count'', JNum 3)],
               localStorage = empty_storage\<lparr>entries := [(''counter'', ''{"count":3}'')]\<rparr>,
               console = []\<rparr>
   \<and> observable (counter 0)
        \<lparr>state = JObj [(''count'', JNum 3)],
         localStorage = empty_storage\<lparr>entries := [(''counter'', ''{"count":3}'')]\<rparr>,
         console = []\<rparr>
       = JObj [(''count'', JNum 3)]
   \<and> getItem (empty_storage\<lparr>entries := [(''counter'', ''{"count":3}'')]\<rparr>) ''counter''
       = Some ''{"count":3}''\<close>
proof -
  let ?w0 = "mount empty_storage"
  let ?w1 = \<open>\<lparr>state = JObj [(''count'', JNum 1)],
     localStorage = empty_storage\<lparr>entries := [(''counter'', ''{"count":1}'')]\<rparr>,
     console = []\<rparr>\<close>
  let ?w2 = \<open>\<lparr>state = JObj [(''count'', JNum 2)],
     localStorage = empty_storage\<lparr>entries := [(''counter'', ''{"count":2}'')]\<rparr>,
     console = []\<rparr>\<close>
  let ?w3 = \<open>\<lparr>state = JObj [(''count'', JNum 3)],
     localStorage = empty_storage\<lparr>entries := [(''counter'', ''{"count":3}'')]\<rparr>,
     console = []\<rparr>\<close>
  have e: "useEffect browser ''counter'' None ?w0 = Return ?w0"
    by (simp add: useEffect_defs browser_def mount_def empty_storage_def)
  have 1: "setValue browser ''counter'' (counter 0) None (Updater increment) False ?w0
             = Return ?w1"
    by (simp add: setValue_defs browser_def mount_def empty_storage_def counter_def
          increment_def read_prop_def own_props_def text_counter del: json_text.simps)
  have 2: "setValue browser ''counter'' (counter 0) None (Updater increment) False ?w1
             = Return ?w2"
    by (simp add: setValue_defs browser_def mount_def empty_storage_def counter_def
          increment_def read_prop_def own_props_def text_counter del: json_text.simps)
  have 3: "setValue browser ''counter'' (counter 0) None (Updater increment) False ?w2
             = Return ?w3"
    by (simp add: setValue_defs browser_def mount_def empty_storage_def counter_def
          increment_def read_prop_def own_props_def text_counter del: json_text.simps)
  have o: "observable (counter 0) ?w3 = JObj [(''count'', JNum 3)]"
    by (simp add: observable_def nullish_coalesce_def)
  have g: \<open>getItem (empty_storage\<lparr>entries := [(''counter'', ''{"count":3}'')]\<rparr>) ''counter''
             = Some ''{"count":3}''\<close>
    by (simp add: getItem_def)
  show ?thesis
    using o g by (simp add: e 1 2 3)
qed

text \<open>
  C9. With a validator supplied, after any sequence of runs of the effect and calls of
  the setter on a binding, starting from its first render, the value the caller
  observes is the default or a value the validator has returned.
\<close>

theorem observed_is_default_or_validated:
  "observable defaultValue (run env key defaultValue (Some f) st calls) = defaultValue
   \<or> (\<exists>x. f x = Inr (observable defaultValue (run env key defaultValue (Some f) st calls)))"
  using validated_run [of env key defaultValue f st calls]
  by (auto simp add: observable_def nullish_coalesce_def)

text \<open>
  C10. A validator that returns \<^verbatim>\<open>undefined\<close> on the value it is handed: the update
  returns normally and leaves the world exactly as it was (state, storage area, and
  nothing logged), and so does the effect when that value is what it has parsed from
  the entry. A validation failure leaves the same state and storage area (C1).
\<close>

theorem undefined_from_validator_discards:
  assumes "f v = Inr JUndefined"
  shows "(candidate defaultValue u w = Inr c \<and> finalValue merge w c = v
            \<longrightarrow> setValue env key defaultValue (Some f) u merge w = Return w)
       \<and> (\<not> blocked (localStorage w) \<and> getItem (localStorage w) key = Some text
            \<and> JSON_parse env text = Inr v
            \<longrightarrow> useEffect env key (Some f) w = Return w)"
  using assms
  by (simp add: setValue_def useEffect_def validator_def localStorage_getter_def)

theorem undefined_from_validator_discards_witness:
  \<open>lenient_validator (preferences 40) = Inr JUndefined
   \<and> candidate (preferences 16) (Value (preferences 40)) (mount oversized_storage)
       = Inr (preferences 40)
   \<and> finalValue False (mount oversized_storage) (preferences 40) = preferences 40
   \<and> setValue browser ''user-preferences'' (preferences 16) (Some lenient_validator)
       (Value (preferences 40)) False (mount oversized_storage)
       = Return (mount oversized_storage)
   \<and> getItem (localStorage (mount oversized_storage)) ''user-preferences''
       = Some ''{"theme":"light","fontSize":40}''
   \<and> JSON_parse browser ''{"theme":"light","fontSize":40}'' = Inr (preferences 40)
   \<and> useEffect browser ''user-preferences'' (Some lenient_validator)
       (mount oversized_storage) = Return (mount oversized_storage)\<close>
proof -
  have u: "lenient_validator (preferences 40) = Inr JUndefined"
    by (simp add: lenient_validator_def fontSize_validator_def preferences_def
          read_prop_def own_props_def)
  have c: "candidate (preferences 16) (Value (preferences 40)) (mount oversized_storage)
             = Inr (preferences 40)"
    by (simp add: candidate_def)
  have f: "finalValue False (mount oversized_storage) (preferences 40) = preferences 40"
    by (simp add: finalValue_def)
  have b: "\<not> blocked (localStorage (mount oversized_storage))"
    by (simp add: mount_def oversized_storage_def empty_storage_def)
  have g: \<open>getItem (localStorage (mount oversized_storage)) ''user-preferences''
             = Some ''{"theme":"light","fontSize":40}''\<close>
    by (simp add: getItem_def mount_def oversized_storage_def)
  have p: \<open>JSON_parse browser ''{"theme":"light","fontSize":40}'' = Inr (preferences 40)\<close>
    by (simp add: browser_def parse_preferences preferences_def)
  from undefined_from_validator_discards
         [where f = lenient_validator and v = "preferences 40"
            and defaultValue = "preferences 16" and u = "Value (preferences 40)"
            and w = "mount oversized_storage" and c = "preferences 40" and merge = False
            and env = browser and key = "''user-preferences''", OF u]
       u c f b g p
  show ?thesis by simp
qed

end
